theory Spec2Isabelle
  imports Main "HOL-Library.AList" "HOL-Library.Word"
begin

section \<open>Values\<close>

text \<open>
  The library passes plain JavaScript data around: configuration trees, probe results,
  cache payloads. They are modelled by one datatype of JSON-like values. Numbers are the
  integers the code uses (milliseconds, sizes, priorities). An object is the list of its
  own properties in insertion order; members inherited from a prototype (such as
  \<open>toString\<close>) are not part of the data and are not modelled.
\<close>

datatype jv =
    JNull
  | JBool bool
  | JNum int
  | JStr string
  | JArr "jv list"
  | JObj "(string \<times> jv) list"

text \<open>Truthiness, as \<open>if (v)\<close>, \<open>!v\<close> and \<open>a || b\<close> see a value.\<close>

fun truthy :: "jv \<Rightarrow> bool" where
  "truthy JNull = False"
| "truthy (JBool b) = b"
| "truthy (JNum n) = (n \<noteq> 0)"
| "truthy (JStr s) = (s \<noteq> [])"
| "truthy (JArr xs) = True"
| "truthy (JObj kvs) = True"

text \<open>\<open>typeof v === 'object'\<close>: true of null, arrays and objects.\<close>

fun typeof_object :: "jv \<Rightarrow> bool" where
  "typeof_object JNull = True"
| "typeof_object (JArr xs) = True"
| "typeof_object (JObj kvs) = True"
| "typeof_object v = False"


subsection \<open>Strings\<close>

definition digitChar :: "nat \<Rightarrow> char" where
  "digitChar d = ''0123456789'' ! d"

text \<open>The decimal form of a natural number, as \<open>String(n)\<close> gives it.\<close>

function showNat :: "nat \<Rightarrow> string" where
  "showNat n = (if n < 10 then [digitChar n] else showNat (n div 10) @ [digitChar (n mod 10)])"
  by pat_completeness auto
termination
  by (relation "measure id") auto

declare showNat.simps [simp del]

definition showInt :: "int \<Rightarrow> string" where
  "showInt i = (if i < 0 then CHR ''-'' # showNat (nat (- i)) else showNat (nat i))"

text \<open>\<open>str.split(c)\<close> for a one-character separator: the empty string gives one empty piece.\<close>

fun splitOn :: "char \<Rightarrow> string \<Rightarrow> string list" where
  "splitOn c [] = [[]]"
| "splitOn c (x # xs) =
     (if x = c then [] # splitOn c xs
      else (case splitOn c xs of [] \<Rightarrow> [[x]] | w # ws \<Rightarrow> (x # w) # ws))"

subsection \<open>Property access\<close>

text \<open>
  \<open>getProp v key\<close> is \<open>Some (v[key])\<close> when \<open>key in v\<close> holds and \<open>None\<close> otherwise.
  An object has its own keys. An array has its indices, written in decimal without
  leading zeros, and \<open>length\<close>. The operator \<open>in\<close> is only applied to objects and arrays:
  the callers test \<open>typeof\<close> first.
\<close>

fun getProp :: "jv \<Rightarrow> string \<Rightarrow> jv option" where
  "getProp (JObj kvs) key = map_of kvs key"
| "getProp (JArr xs) key =
     (if key = ''length'' then Some (JNum (int (length xs)))
      else (case find (\<lambda>i. showNat i = key) [0..<length xs] of
              Some i \<Rightarrow> Some (xs ! i)
            | None \<Rightarrow> None))"
| "getProp v key = None"

section \<open>Config\<close>

text \<open>The default configuration tree, \<open>Config.defaults\<close>.\<close>

definition defaults :: jv where
  "defaults = JObj [
     (''timeouts'', JObj [
        (''audio'', JNum 5000),
        (''mediaDevices'', JNum 3000),
        (''storage'', JNum 2000),
        (''permissions'', JNum 1000),
        (''battery'', JNum 2000),
        (''webRTC'', JNum 2000),
        (''fontDetection'', JNum 5000)]),
     (''features'', JObj [
        (''canvas'', JBool True),
        (''webgl'', JBool True),
        (''audio'', JBool True),
        (''fonts'', JBool True),
        (''mediaDevices'', JBool True),
        (''webRTC'', JBool True),
        (''battery'', JBool True),
        (''permissions'', JBool True),
        (''storage'', JBool True),
        (''plugins'', JBool True),
        (''screen'', JBool True),
        (''timeZone'', JBool True),
        (''userAgent'', JBool True),
        (''language'', JBool True),
        (''platform'', JBool True),
        (''connection'', JBool True),
        (''touch'', JBool True),
        (''speechVoices'', JBool True),
        (''mediaQueries'', JBool True),
        (''features'', JBool True),
        (''performance'', JBool True),
        (''math'', JBool True),
        (''dateTime'', JBool True),
        (''privacy'', JBool True),
        (''history'', JBool True),
        (''codecs'', JBool True),
        (''orientation'', JBool True),
        (''deviceMotion'', JBool True)]),
     (''cache'', JObj [
        (''enabled'', JBool True),
        (''ttl'', JNum 3600000),
        (''maxSize'', JNum 100),
        (''storage'', JStr ''memory'')]),
     (''fontList'', JArr [
        JStr ''Arial'', JStr ''Verdana'', JStr ''Times New Roman'', JStr ''Courier New'',
        JStr ''Roboto'', JStr ''Open Sans'', JStr ''Noto Sans'', JStr ''Helvetica'',
        JStr ''Tahoma'', JStr ''Georgia'', JStr ''Comic Sans MS'', JStr ''Impact'',
        JStr ''Lucida Console'', JStr ''Palatino'', JStr ''Garamond'', JStr ''Bookman'',
        JStr ''Trebuchet MS'', JStr ''Arial Black'', JStr ''Comic Sans'', JStr ''Courier'',
        JStr ''Lucida Sans Unicode'', JStr ''MS Sans Serif'', JStr ''MS Serif'',
        JStr ''Symbol'', JStr ''Times'', JStr ''Wingdings'', JStr ''Zapf Dingbats'']),
     (''performance'', JObj [
        (''useRequestIdleCallback'', JBool True),
        (''fontDetectionBatchSize'', JNum 5),
        (''fontDetectionIdleTimeout'', JNum 5000)])]"

text \<open>
  \<open>Config.get(path, defaultValue)\<close>. The loop over the keys is \<open>walk\<close>: it steps into
  \<open>value[key]\<close> while \<open>value && typeof value === 'object' && key in value\<close> holds and
  returns the default at the first key where it does not.
\<close>

fun walk :: "jv \<Rightarrow> string list \<Rightarrow> jv \<Rightarrow> jv" where
  "walk v [] defaultValue = v"
| "walk v (key # keys) defaultValue =
     (if truthy v \<and> typeof_object v \<and> getProp v key \<noteq> None
      then walk (the (getProp v key)) keys defaultValue
      else defaultValue)"

definition Config_get :: "jv \<Rightarrow> string \<Rightarrow> jv \<Rightarrow> jv" where
  "Config_get current path defaultValue = walk current (splitOn CHR ''.'' path) defaultValue"



section \<open>Cache\<close>

text \<open>
  A cache entry, as \<open>Cache.set\<close> builds it: \<open>{ key, data, timestamp }\<close>.
\<close>

record entry =
  key :: string
  data :: jv
  timestamp :: int

text \<open>
  \<open>Cache\<close> reads its settings with \<open>Config.get\<close> at every call: \<open>cache.enabled\<close>,
  \<open>cache.storage\<close>, \<open>cache.ttl\<close> and \<open>cache.maxSize\<close>. The model passes them as a record,
  at the types they have in the default tree.
\<close>

record cache_config =
  cache_enabled :: bool
  cache_storage :: string
  cache_ttl :: int
  cache_maxSize :: int

text \<open>
  A JavaScript \<open>Map\<close> iterates in insertion order, and \<open>set\<close> on a key the map already
  has replaces the value where the key stands. It is the list of its pairs, keys
  distinct; \<open>set\<close> and \<open>delete\<close> are the association-list operations of the same
  behaviour.
\<close>

abbreviation Map_set :: "'k \<Rightarrow> 'v \<Rightarrow> ('k \<times> 'v) list \<Rightarrow> ('k \<times> 'v) list" where
  "Map_set \<equiv> AList.update"

abbreviation Map_delete :: "'k \<Rightarrow> ('k \<times> 'v) list \<Rightarrow> ('k \<times> 'v) list" where
  "Map_delete \<equiv> AList.delete"

text \<open>
  The two tiers. \<open>indexedDBReady\<close> stands for \<open>this.indexedDBReady && this.indexedDBCache\<close>;
  \<open>indexedDB\<close> is the content of the object store \<open>fingerprints\<close>, keyed by \<open>key\<close>.
\<close>

record cache_state =
  memoryCache :: "(string \<times> entry) list"
  indexedDBReady :: bool
  indexedDB :: "(string \<times> entry) list"

text \<open>
  \<open>Cache.delete(key)\<close>. A request to the object store may fail (the transaction throws or
  the request errors); the failure is logged and the store keeps its content. Whether it
  fails is an argument of the model.
\<close>

definition Cache_delete :: "bool \<Rightarrow> string \<Rightarrow> cache_state \<Rightarrow> cache_state" where
  "Cache_delete deleteFails k s =
     s\<lparr>memoryCache := Map_delete k (memoryCache s),
       indexedDB := (if indexedDBReady s \<and> \<not> deleteFails
                     then Map_delete k (indexedDB s) else indexedDB s)\<rparr>"

text \<open>
  The second half of \<open>Cache.get\<close>, after the memory tier missed: the lookup in the object
  store. A hit within \<open>ttl\<close> is copied into the memory tier; an expired entry is deleted.
\<close>

definition Cache_get_indexedDB ::
  "cache_config \<Rightarrow> int \<Rightarrow> bool \<Rightarrow> bool \<Rightarrow> string \<Rightarrow> cache_state \<Rightarrow> jv \<times> cache_state" where
  "Cache_get_indexedDB cfg now getFails deleteFails k s =
     (if cache_storage cfg = ''indexedDB'' \<and> indexedDBReady s then
        (if getFails then (JNull, s)
         else (case map_of (indexedDB s) k of
                 Some e \<Rightarrow>
                   (if now - timestamp e < cache_ttl cfg
                    then (data e, s\<lparr>memoryCache := Map_set k e (memoryCache s)\<rparr>)
                    else (JNull, Cache_delete deleteFails k s))
               | None \<Rightarrow> (JNull, s)))
      else (JNull, s))"

text \<open>\<open>Cache.get(key)\<close>, with \<open>now = Date.now()\<close>. It returns the payload, or null.\<close>

definition Cache_get ::
  "cache_config \<Rightarrow> int \<Rightarrow> bool \<Rightarrow> bool \<Rightarrow> string \<Rightarrow> cache_state \<Rightarrow> jv \<times> cache_state" where
  "Cache_get cfg now getFails deleteFails k s =
     (if \<not> cache_enabled cfg then (JNull, s)
      else (case map_of (memoryCache s) k of
              Some e \<Rightarrow>
                (if now - timestamp e < cache_ttl cfg then (data e, s)
                 else Cache_get_indexedDB cfg now getFails deleteFails k
                        (s\<lparr>memoryCache := Map_delete k (memoryCache s)\<rparr>))
            | None \<Rightarrow> Cache_get_indexedDB cfg now getFails deleteFails k s))"

text \<open>
  \<open>Cache.set(key, data)\<close>, with \<open>now = Date.now()\<close>. After the write, a table larger than
  \<open>maxSize\<close> loses the first key of its iteration order.
\<close>

definition Cache_set ::
  "cache_config \<Rightarrow> int \<Rightarrow> bool \<Rightarrow> string \<Rightarrow> jv \<Rightarrow> cache_state \<Rightarrow> cache_state" where
  "Cache_set cfg now putFails k d s =
     (if \<not> cache_enabled cfg then s
      else
        let e = \<lparr>key = k, data = d, timestamp = now\<rparr>;
            m1 = Map_set k e (memoryCache s);
            m2 = (if int (length m1) > cache_maxSize cfg
                  then (case m1 of [] \<Rightarrow> m1 | (firstKey, x) # rest \<Rightarrow> Map_delete firstKey m1)
                  else m1)
        in s\<lparr>memoryCache := m2,
             indexedDB := (if cache_storage cfg = ''indexedDB'' \<and> indexedDBReady s \<and> \<not> putFails
                           then Map_set k e (indexedDB s) else indexedDB s)\<rparr>)"

text \<open>The state of a cache nothing was written to.\<close>

definition emptyCache :: cache_state where
  "emptyCache = \<lparr>memoryCache = [], indexedDBReady = False, indexedDB = []\<rparr>"

text \<open>
  Whether a tier holds an entry for a key that is younger than \<open>ttl\<close>; used to state what
  \<open>Cache.get\<close> returns. The object store only counts when it is consulted and its request
  succeeds.
\<close>

definition memoryFresh :: "cache_config \<Rightarrow> int \<Rightarrow> string \<Rightarrow> cache_state \<Rightarrow> bool" where
  "memoryFresh cfg now k s =
     (case map_of (memoryCache s) k of
        Some e \<Rightarrow> now - timestamp e < cache_ttl cfg
      | None \<Rightarrow> False)"

definition durableFresh :: "cache_config \<Rightarrow> int \<Rightarrow> bool \<Rightarrow> string \<Rightarrow> cache_state \<Rightarrow> bool" where
  "durableFresh cfg now getFails k s =
     (cache_storage cfg = ''indexedDB'' \<and> indexedDBReady s \<and> \<not> getFails \<and>
      (case map_of (indexedDB s) k of
         Some e \<Rightarrow> now - timestamp e < cache_ttl cfg
       | None \<Rightarrow> False))"

text \<open>Settings used in the examples: the defaults of the tree, with the given switches.\<close>

definition cacheConfig :: "bool \<Rightarrow> string \<Rightarrow> int \<Rightarrow> cache_config" where
  "cacheConfig en st mx =
     \<lparr>cache_enabled = en, cache_storage = st, cache_ttl = 3600000, cache_maxSize = mx\<rparr>"

section \<open>Hashing and timeouts\<close>







text \<open>
  What a call of \<open>execute()\<close> does: it returns a plain value, throws, or returns a promise,
  which is fulfilled or rejected after some milliseconds or stays pending for ever.
\<close>

datatype settled = Fulfilled jv | Rejected

datatype execution =
    Returns jv
  | Throws
  | Settles nat settled
  | Pending

text \<open>What \<open>await\<close> gives: a value, an exception, or nothing ever.\<close>

datatype awaited = Value jv | Error | Never

fun await :: "execution \<Rightarrow> awaited" where
  "await (Returns v) = Value v"
| "await Throws = Error"
| "await (Settles d (Fulfilled v)) = Value v"
| "await (Settles d Rejected) = Error"
| "await Pending = Never"

fun joinWith :: "string \<Rightarrow> string list \<Rightarrow> string" where
  "joinWith sep [] = []"
| "joinWith sep [x] = x"
| "joinWith sep (x # y # ys) = x @ sep @ joinWith sep (y # ys)"

text \<open>The string a value becomes inside a template literal.\<close>

fun toStr :: "jv \<Rightarrow> string" where
  "toStr JNull = ''null''"
| "toStr (JBool b) = (if b then ''true'' else ''false'')"
| "toStr (JNum n) = showInt n"
| "toStr (JStr s) = s"
| "toStr (JArr xs) = joinWith '','' (map (\<lambda>x. if x = JNull then [] else toStr x) xs)"
| "toStr (JObj kvs) = ''[object Object]''"





text \<open>
  The delay \<open>setTimeout\<close> makes of its argument: a number of milliseconds, negative ones
  counting as zero. The timeouts of the configuration are numbers; the numeric reading of
  other values is not modelled, they count as zero.
\<close>

fun timerDelay :: "jv \<Rightarrow> nat" where
  "timerDelay (JNum n) = nat n"
| "timerDelay (JBool b) = (if b then 1 else 0)"
| "timerDelay v = 0"

text \<open>
  \<open>withTimeout(promise, timeoutType, fallbackValue, context, customTimeout)\<close>; \<open>context\<close>
  only reaches the log. The deadline is \<open>customTimeout\<close> if truthy and otherwise the entry
  of the configuration under \<open>timeouts.<timeoutType>\<close>, 5000 when there is none. The result
  is the race of the promise against the timer: a promise settled by the deadline wins
  (its callbacks run before the timer's, which was started later), and otherwise the
  fallback is delivered at the deadline. A first argument that is not a promise has no
  \<open>then\<close>, and the call throws.
\<close>

definition withTimeout :: "jv \<Rightarrow> execution \<Rightarrow> jv \<Rightarrow> jv \<Rightarrow> jv \<Rightarrow> execution" where
  "withTimeout current promise timeoutType fallbackValue customTimeout =
     (let timeoutMs = (if truthy customTimeout then customTimeout
                       else Config_get current (''timeouts.'' @ toStr timeoutType) (JNum 5000))
      in case promise of
           Settles d r \<Rightarrow>
             (if d \<le> timerDelay timeoutMs then Settles d r
              else Settles (timerDelay timeoutMs) (Fulfilled fallbackValue))
         | Pending \<Rightarrow> Settles (timerDelay timeoutMs) (Fulfilled fallbackValue)
         | Returns v \<Rightarrow> Throws
         | Throws \<Rightarrow> Throws)"

section \<open>Strategies\<close>

text \<open>
  A \<open>FingerprintStrategy\<close>: its fields, and the behaviour of the methods a subclass
  overrides. \<open>execute\<close> is what a call of \<open>execute()\<close> does; \<open>getStableComponents\<close> maps a
  result to the reduced value, null also standing for a method that throws, since its
  only caller skips the strategy in both cases; \<open>cleanupThrows\<close> says whether \<open>cleanup()\<close>
  throws.
\<close>

record strategy =
  name :: string
  enabled :: bool
  priority :: int
  timeout :: jv
  requiresAsync :: bool
  execute :: execution
  getStableComponents :: "jv \<Rightarrow> jv"
  cleanupThrows :: bool

definition toLowerChar :: "char \<Rightarrow> char" where
  "toLowerChar c =
     (case map_of (zip ''ABCDEFGHIJKLMNOPQRSTUVWXYZ'' ''abcdefghijklmnopqrstuvwxyz'') c of
        Some l \<Rightarrow> l
      | None \<Rightarrow> c)"

text \<open>\<open>str.toLowerCase()\<close>, on the ASCII letters.\<close>

definition toLowerCase :: "string \<Rightarrow> string" where
  "toLowerCase str = map toLowerChar str"

text \<open>\<open>str.replace(pattern, '')\<close> for a string pattern: the first occurrence is removed.\<close>

fun removeFirst :: "string \<Rightarrow> string \<Rightarrow> string" where
  "removeFirst pat [] = []"
| "removeFirst pat (x # xs) =
     (if take (length pat) (x # xs) = pat then drop (length pat) (x # xs)
      else x # removeFirst pat xs)"

text \<open>\<open>str.replace(/Strategy$/, '')\<close>.\<close>

definition dropStrategySuffix :: "string \<Rightarrow> string" where
  "dropStrategySuffix str =
     (if 8 \<le> length str \<and> drop (length str - 8) str = ''Strategy''
      then take (length str - 8) str else str)"

definition specialCases :: "(string \<times> string) list" where
  "specialCases = [
     (''FontDetection'', ''fonts''),
     (''MediaDevices'', ''mediaDevices''),
     (''SpeechVoices'', ''speechVoices''),
     (''MediaQueries'', ''mediaQueries''),
     (''FeatureDetection'', ''features''),
     (''ScreenOrientation'', ''orientation''),
     (''DeviceMotion'', ''deviceMotion''),
     (''MediaCodecs'', ''codecs''),
     (''WebRTC'', ''webRTC''),
     (''WebGL'', ''webgl''),
     (''UserAgent'', ''userAgent''),
     (''TimeZone'', ''timeZone'')]"

definition getFeatureKey :: "strategy \<Rightarrow> string" where
  "getFeatureKey st =
     (let nameWithoutStrategy = dropStrategySuffix (name st)
      in case map_of specialCases nameWithoutStrategy of
           Some k \<Rightarrow> k
         | None \<Rightarrow> map toLowerChar (take 1 nameWithoutStrategy) @ drop 1 nameWithoutStrategy)"

definition isEnabled :: "jv \<Rightarrow> strategy \<Rightarrow> bool" where
  "isEnabled current st \<longleftrightarrow>
     enabled st \<and> truthy (Config_get current (''features.'' @ getFeatureKey st) (JBool True))"

text \<open>
  \<open>FingerprintStrategy.collect()\<close>. The result is how the promise it returns ends:
  \<open>Some (Fulfilled v)\<close>, \<open>Some Rejected\<close> (only when \<open>cleanup()\<close> throws in the \<open>finally\<close>
  block), or \<open>None\<close> when it never settles. A disabled strategy returns null before the
  \<open>try\<close> block, so without cleanup.
\<close>

definition strategy_collect :: "jv \<Rightarrow> strategy \<Rightarrow> settled option" where
  "strategy_collect current st =
     (if \<not> isEnabled current st then Some (Fulfilled JNull)
      else
        (case (case execute st of
                 Throws \<Rightarrow> Error
               | promise \<Rightarrow>
                   (if truthy (timeout st)
                    then await (withTimeout current promise (timeout st) JNull JNull)
                    else await promise)) of
           Never \<Rightarrow> None
         | Value result \<Rightarrow> (if cleanupThrows st then Some Rejected else Some (Fulfilled result))
         | Error \<Rightarrow> (if cleanupThrows st then Some Rejected else Some (Fulfilled JNull))))"

section \<open>StrategyRegistry\<close>

text \<open>The registry is the \<open>Map\<close> from names to strategies.\<close>

type_synonym registry = "(string \<times> strategy) list"

definition register :: "strategy \<Rightarrow> registry \<Rightarrow> registry" where
  "register st reg = Map_set (name st) st reg"

definition registerAll :: "strategy list \<Rightarrow> registry \<Rightarrow> registry" where
  "registerAll strategies reg = fold register strategies reg"

text \<open>
  \<open>getEnabledStrategies()\<close>: the values in the order of the map, the enabled ones, sorted
  by \<open>a.priority - b.priority\<close>. \<open>Array.prototype.sort\<close> is stable, as is \<open>sort_key\<close>.
\<close>

definition getEnabledStrategies :: "jv \<Rightarrow> registry \<Rightarrow> strategy list" where
  "getEnabledStrategies current reg =
     sort_key priority (filter (isEnabled current) (map snd reg))"

definition disable :: "string \<Rightarrow> registry \<Rightarrow> registry" where
  "disable n reg =
     (case map_of reg n of Some st \<Rightarrow> Map_set n (st\<lparr>enabled := False\<rparr>) reg | None \<Rightarrow> reg)"

definition enable :: "string \<Rightarrow> registry \<Rightarrow> registry" where
  "enable n reg =
     (case map_of reg n of Some st \<Rightarrow> Map_set n (st\<lparr>enabled := True\<rparr>) reg | None \<Rightarrow> reg)"

section \<open>FingerprintCollector\<close>

text \<open>
  \<open>Promise.allSettled\<close>: each promise, when it settles, stores its outcome at its own
  index, and the array is delivered once every index is filled. \<open>order\<close> lists the
  indices in the order in which the promises settle; \<open>promises\<close> gives how each ends.
  The result is \<open>None\<close> when some promise never settles.
\<close>

definition allSettled :: "nat list \<Rightarrow> settled option list \<Rightarrow> settled list option" where
  "allSettled order promises =
     those (fold (\<lambda>i values. if i < length promises then values[i := promises ! i] else values)
              order (replicate (length promises) None))"

text \<open>
  \<open>executeStrategies(strategies)\<close>: every \<open>collect()\<close> is started, all are awaited, and the
  outcomes are stored under the strategies' names in the order of \<open>strategies\<close>, null
  standing for a rejected promise.
\<close>

definition strategyResults :: "strategy list \<Rightarrow> settled list \<Rightarrow> (string \<times> jv) list" where
  "strategyResults strategies results =
     fold (\<lambda>(st, result) acc.
             Map_set (name st) (case result of Fulfilled v \<Rightarrow> v | Rejected \<Rightarrow> JNull) acc)
          (zip strategies results) []"

definition executeStrategies ::
  "jv \<Rightarrow> nat list \<Rightarrow> strategy list \<Rightarrow> (string \<times> jv) list option" where
  "executeStrategies current order strategies =
     (case allSettled order (map (strategy_collect current) strategies) of
        None \<Rightarrow> None
      | Some results \<Rightarrow> Some (strategyResults strategies results))"

definition keyMapping :: "(string \<times> string) list" where
  "keyMapping = [
     (''TimeZoneStrategy'', ''timeZone''),
     (''UserAgentStrategy'', ''userAgent''),
     (''CanvasStrategy'', ''canvasFingerprint''),
     (''FontDetectionStrategy'', ''fonts''),
     (''ScreenStrategy'', ''screen''),
     (''PluginsStrategy'', ''plugins''),
     (''LanguageStrategy'', ''language''),
     (''PlatformStrategy'', ''platform''),
     (''WebGLStrategy'', ''webgl''),
     (''AudioStrategy'', ''audioFingerprint''),
     (''MediaDevicesStrategy'', ''mediaDevices''),
     (''ConnectionStrategy'', ''connection''),
     (''TouchStrategy'', ''touch''),
     (''StorageStrategy'', ''storage''),
     (''PermissionsStrategy'', ''permissions''),
     (''SpeechVoicesStrategy'', ''speechVoices''),
     (''BatteryStrategy'', ''battery''),
     (''MediaQueriesStrategy'', ''mediaQueries''),
     (''FeatureDetectionStrategy'', ''features''),
     (''PerformanceStrategy'', ''performance''),
     (''MathStrategy'', ''math''),
     (''DateTimeStrategy'', ''dateTime''),
     (''PrivacyStrategy'', ''privacy''),
     (''HistoryStrategy'', ''history''),
     (''MediaCodecsStrategy'', ''codecs''),
     (''WebRTCStrategy'', ''webRTC''),
     (''ScreenOrientationStrategy'', ''orientation''),
     (''DeviceMotionStrategy'', ''deviceMotion'')]"

text \<open>The key of the fingerprint object a strategy's result is stored under.\<close>

definition fingerprintKey :: "string \<Rightarrow> string" where
  "fingerprintKey strategyName =
     (case map_of keyMapping strategyName of
        Some k \<Rightarrow> k
      | None \<Rightarrow> removeFirst ''strategy'' (toLowerCase strategyName))"

definition aggregateResults :: "(string \<times> jv) list \<Rightarrow> (string \<times> jv) list" where
  "aggregateResults results =
     fold (\<lambda>(strategyName, v) fp. Map_set (fingerprintKey strategyName) v fp) results []"










text \<open>
  Examples. \<open>probe n t ex\<close> is a strategy as the constructor of \<open>FingerprintStrategy\<close>
  leaves it (enabled, priority 100, no stable components, a cleanup that does nothing),
  with name \<open>n\<close>, timeout \<open>t\<close> and an \<open>execute()\<close> that behaves as \<open>ex\<close>. \<open>exampleEnv\<close> is
  an environment with the default configuration, the memory tier only, a clock standing
  at 1000 and no \<open>crypto.subtle\<close>.
\<close>

definition probe :: "string \<Rightarrow> jv \<Rightarrow> execution \<Rightarrow> strategy" where
  "probe n t ex =
     \<lparr>name = n, enabled = True, priority = 100, timeout = t, requiresAsync = False,
      execute = ex, getStableComponents = (\<lambda>result. JNull), cleanupThrows = False\<rparr>"


section \<open>Properties of Config\<close>













section \<open>Properties of Cache\<close>

lemma Cache_set_memory:
  assumes en: "cache_enabled cfg" and dist: "distinct (map fst (memoryCache s))"
  shows "memoryCache (Cache_set cfg now putFails k d s) =
     (let written = Map_set k \<lparr>key = k, data = d, timestamp = now\<rparr> (memoryCache s)
      in if int (length written) > cache_maxSize cfg then tl written else written)"
proof -
  let ?w = "Map_set k \<lparr>key = k, data = d, timestamp = now\<rparr> (memoryCache s)"
  have dw: "distinct (map fst ?w)" using dist by (simp add: distinct_update)
  have "(case ?w of [] \<Rightarrow> ?w | (firstKey, x) # rest \<Rightarrow> Map_delete firstKey ?w) = tl ?w"
  proof (cases ?w)
    case Nil
    then show ?thesis by simp
  next
    case (Cons p rest)
    obtain a b where p: "p = (a, b)" by (cases p)
    from dw Cons p have "a \<notin> fst ` set rest" by simp
    then have "Map_delete a rest = rest" by simp
    with Cons p show ?thesis by simp
  qed
  then show ?thesis using en by (simp add: Cache_set_def Let_def)
qed


text \<open>
  C4 (the claim as stated fails): \<open>Cache.set\<close> returns at once when \<open>cache.enabled\<close> is
  false, so nothing is written to the memory tier. And with caching enabled the entry
  removed is the one at the first key of the map, where an overwritten key stays: with
  \<open>maxSize = 1\<close>, after \<open>A\<close> and \<open>B\<close> were set and \<open>A\<close> was promoted back by \<open>get\<close>, the memory
  tier is \<open>B, A\<close>; setting \<open>B\<close> again removes the entry just written and keeps the older
  entry of \<open>A\<close>.
\<close>

theorem Cache_set_disabled_counterexample:
  "map_of (memoryCache (Cache_set (cacheConfig False ''memory'' 2) 0 False ''A''
      (JStr ''payload'') emptyCache)) ''A'' = None
   \<and> memoryCache
        (Cache_set (cacheConfig True ''indexedDB'' 1) 5 False ''B'' (JNum 9)
          (snd (Cache_get (cacheConfig True ''indexedDB'' 1) 3 False False ''A''
            (Cache_set (cacheConfig True ''indexedDB'' 1) 2 False ''B'' (JNum 2)
              (Cache_set (cacheConfig True ''indexedDB'' 1) 1 False ''A'' (JNum 1)
                \<lparr>memoryCache = [], indexedDBReady = True, indexedDB = []\<rparr>)))))
     = [(''A'', \<lparr>key = ''A'', data = JNum 1, timestamp = 1\<rparr>)]"
  by (simp add: Cache_set_def Cache_get_def Cache_get_indexedDB_def Cache_delete_def
      cacheConfig_def emptyCache_def Let_def)

text \<open>
  C4 (amended): when \<open>cache.enabled\<close> is true, \<open>set(key, payload)\<close> writes the entry
  \<open>{key, payload, now}\<close> to the memory tier (a key already there keeps its place), and if
  the table then holds more than \<open>maxSize\<close> entries its first entry in insertion order is
  removed; a hit of \<open>get\<close> does not move an entry. With \<open>maxSize = 2\<close>, inserting \<open>A\<close>, \<open>B\<close>,
  reading \<open>A\<close> and inserting \<open>C\<close> leaves exactly \<open>B\<close> and \<open>C\<close>. When \<open>cache.enabled\<close> is
  false, \<open>set\<close> changes nothing.
\<close>

theorem Cache_set_fifo:
  "(cache_enabled cfg \<and> distinct (map fst (memoryCache s)) \<longrightarrow>
      (let e = \<lparr>key = k, data = d, timestamp = now\<rparr>;
           written = Map_set k e (memoryCache s);
           after = memoryCache (Cache_set cfg now putFails k d s)
       in map_of written = (map_of (memoryCache s))(k \<mapsto> e)
          \<and> map fst written = (if k \<in> fst ` set (memoryCache s) then map fst (memoryCache s)
                                else map fst (memoryCache s) @ [k])
          \<and> after = (if int (length written) > cache_maxSize cfg then tl written else written)))
   \<and> (a \<noteq> b \<and> a \<noteq> c \<and> b \<noteq> c \<longrightarrow>
      (let cfg2 = cacheConfig True ''memory'' 2;
           s1 = Cache_set cfg2 t1 False a da emptyCache;
           s2 = Cache_set cfg2 t2 False b db s1;
           s3 = snd (Cache_get cfg2 t3 False False a s2);
           s4 = Cache_set cfg2 t4 False c dc s3
       in memoryCache s4 = [(b, \<lparr>key = b, data = db, timestamp = t2\<rparr>),
                            (c, \<lparr>key = c, data = dc, timestamp = t4\<rparr>)]))
   \<and> (\<not> cache_enabled cfg \<longrightarrow> Cache_set cfg now putFails k d s = s)"
proof (intro conjI impI)
  assume h: "cache_enabled cfg \<and> distinct (map fst (memoryCache s))"
  then have m: "memoryCache (Cache_set cfg now putFails k d s) =
     (let written = Map_set k \<lparr>key = k, data = d, timestamp = now\<rparr> (memoryCache s)
      in if int (length written) > cache_maxSize cfg then tl written else written)"
    by (simp add: Cache_set_memory)
  show "let e = \<lparr>key = k, data = d, timestamp = now\<rparr>;
           written = Map_set k e (memoryCache s);
           after = memoryCache (Cache_set cfg now putFails k d s)
       in map_of written = (map_of (memoryCache s))(k \<mapsto> e)
          \<and> map fst written = (if k \<in> fst ` set (memoryCache s) then map fst (memoryCache s)
                                else map fst (memoryCache s) @ [k])
          \<and> after = (if int (length written) > cache_maxSize cfg then tl written else written)"
    using m by (simp add: Let_def update_conv' update_keys)
next
  assume "a \<noteq> b \<and> a \<noteq> c \<and> b \<noteq> c"
  then show "let cfg2 = cacheConfig True ''memory'' 2;
           s1 = Cache_set cfg2 t1 False a da emptyCache;
           s2 = Cache_set cfg2 t2 False b db s1;
           s3 = snd (Cache_get cfg2 t3 False False a s2);
           s4 = Cache_set cfg2 t4 False c dc s3
       in memoryCache s4 = [(b, \<lparr>key = b, data = db, timestamp = t2\<rparr>),
                            (c, \<lparr>key = c, data = dc, timestamp = t4\<rparr>)]"
    by (auto simp add: Let_def Cache_set_def Cache_get_def Cache_get_indexedDB_def
        Cache_delete_def cacheConfig_def emptyCache_def)
next
  assume "\<not> cache_enabled cfg"
  then show "Cache_set cfg now putFails k d s = s" by (simp add: Cache_set_def)
qed

theorem Cache_set_fifo_witness:
  "memoryCache (Cache_set (cacheConfig True ''memory'' 2) 7 False ''C'' JNull
      \<lparr>memoryCache = [(''A'', \<lparr>key = ''A'', data = JNull, timestamp = 1\<rparr>),
                      (''B'', \<lparr>key = ''B'', data = JNull, timestamp = 2\<rparr>)],
       indexedDBReady = False, indexedDB = []\<rparr>)
     = [(''B'', \<lparr>key = ''B'', data = JNull, timestamp = 2\<rparr>),
        (''C'', \<lparr>key = ''C'', data = JNull, timestamp = 7\<rparr>)]
   \<and> map fst (memoryCache
        (Cache_set (cacheConfig True ''memory'' 2) 4 False ''C'' (JNum 3)
          (snd (Cache_get (cacheConfig True ''memory'' 2) 3 False False ''A''
            (Cache_set (cacheConfig True ''memory'' 2) 2 False ''B'' (JNum 2)
              (Cache_set (cacheConfig True ''memory'' 2) 1 False ''A'' (JNum 1) emptyCache))))))
     = [''B'', ''C'']"
proof -
  let ?s = "\<lparr>memoryCache = [(''A'', \<lparr>key = ''A'', data = JNull, timestamp = 1\<rparr>),
                      (''B'', \<lparr>key = ''B'', data = JNull, timestamp = 2\<rparr>)],
       indexedDBReady = False, indexedDB = []\<rparr>"
  have pre: "cache_enabled (cacheConfig True ''memory'' 2) \<and> distinct (map fst (memoryCache ?s))"
    by (simp add: cacheConfig_def)
  have ne: "''A'' \<noteq> ''B'' \<and> ''A'' \<noteq> ''C'' \<and> ''B'' \<noteq> ''C''" by simp
  from Cache_set_fifo [of "cacheConfig True ''memory'' 2" ?s "''C''" JNull 7 False] pre
  have one: "memoryCache (Cache_set (cacheConfig True ''memory'' 2) 7 False ''C'' JNull ?s)
     = [(''B'', \<lparr>key = ''B'', data = JNull, timestamp = 2\<rparr>),
        (''C'', \<lparr>key = ''C'', data = JNull, timestamp = 7\<rparr>)]"
    by (simp add: Let_def cacheConfig_def)
  from Cache_set_fifo [of _ _ _ _ _ _ "''A''" "''B''" "''C''" 1 "JNum 1" 2 "JNum 2" 3 4 "JNum 3"] ne
  have two: "map fst (memoryCache
        (Cache_set (cacheConfig True ''memory'' 2) 4 False ''C'' (JNum 3)
          (snd (Cache_get (cacheConfig True ''memory'' 2) 3 False False ''A''
            (Cache_set (cacheConfig True ''memory'' 2) 2 False ''B'' (JNum 2)
              (Cache_set (cacheConfig True ''memory'' 2) 1 False ''A'' (JNum 1) emptyCache))))))
     = [''B'', ''C'']"
    by (simp add: Let_def)
  from one two show ?thesis by blast
qed

text \<open>
  C5 (the claim as stated fails): with \<open>cache.enabled\<close> false, \<open>Cache.get\<close> returns null for
  a key whose entry is present and younger than \<open>ttl\<close>.
\<close>

theorem Cache_get_disabled_counterexample:
  "memoryFresh (cacheConfig False ''memory'' 100) 10 ''A''
      \<lparr>memoryCache = [(''A'', \<lparr>key = ''A'', data = JStr ''payload'', timestamp = 0\<rparr>)],
       indexedDBReady = False, indexedDB = []\<rparr>
   \<and> fst (Cache_get (cacheConfig False ''memory'' 100) 10 False False ''A''
      \<lparr>memoryCache = [(''A'', \<lparr>key = ''A'', data = JStr ''payload'', timestamp = 0\<rparr>)],
       indexedDBReady = False, indexedDB = []\<rparr>) = JNull"
  by (simp add: Cache_get_def cacheConfig_def memoryFresh_def)

text \<open>
  C5 (amended): when \<open>cache.enabled\<close> is true, \<open>get(key)\<close> returns the stored payload and
  changes nothing if the memory tier holds an entry for the key with
  \<open>now - timestamp < ttl\<close>. Otherwise an entry of the memory tier for the key (it is then
  at least \<open>ttl\<close> old) is removed on that access, and the access is a miss returning null,
  unless the object store is consulted and serves an entry younger than \<open>ttl\<close>, which is
  returned and copied into the memory tier. When \<open>cache.enabled\<close> is false, \<open>get\<close> returns
  null and changes nothing.
\<close>

theorem Cache_get_ttl:
  "(\<not> cache_enabled cfg \<longrightarrow> Cache_get cfg now getFails deleteFails k s = (JNull, s))
  \<and> (cache_enabled cfg \<longrightarrow>
    (memoryFresh cfg now k s \<longrightarrow>
       Cache_get cfg now getFails deleteFails k s = (data (the (map_of (memoryCache s) k)), s))
  \<and> (\<not> memoryFresh cfg now k s \<and> durableFresh cfg now getFails k s \<longrightarrow>
       fst (Cache_get cfg now getFails deleteFails k s) = data (the (map_of (indexedDB s) k))
       \<and> map_of (memoryCache (snd (Cache_get cfg now getFails deleteFails k s))) k
           = map_of (indexedDB s) k)
  \<and> (\<not> memoryFresh cfg now k s \<and> \<not> durableFresh cfg now getFails k s \<longrightarrow>
       fst (Cache_get cfg now getFails deleteFails k s) = JNull
       \<and> map_of (memoryCache (snd (Cache_get cfg now getFails deleteFails k s))) k = None))"
  by (auto simp add: Cache_get_def Cache_get_indexedDB_def Cache_delete_def memoryFresh_def
      durableFresh_def delete_conv' update_conv' split: option.splits)

theorem Cache_get_ttl_witness:
  "Cache_get (cacheConfig True ''memory'' 100) 3599999 False False ''A''
      \<lparr>memoryCache = [(''A'', \<lparr>key = ''A'', data = JStr ''payload'', timestamp = 0\<rparr>)],
       indexedDBReady = False, indexedDB = []\<rparr>
     = (JStr ''payload'',
        \<lparr>memoryCache = [(''A'', \<lparr>key = ''A'', data = JStr ''payload'', timestamp = 0\<rparr>)],
         indexedDBReady = False, indexedDB = []\<rparr>)
   \<and> fst (Cache_get (cacheConfig True ''memory'' 100) 3600000 False False ''A''
      \<lparr>memoryCache = [(''A'', \<lparr>key = ''A'', data = JStr ''payload'', timestamp = 0\<rparr>)],
       indexedDBReady = False, indexedDB = []\<rparr>) = JNull
   \<and> map_of (memoryCache (snd (Cache_get (cacheConfig True ''memory'' 100) 3600000 False False ''A''
      \<lparr>memoryCache = [(''A'', \<lparr>key = ''A'', data = JStr ''payload'', timestamp = 0\<rparr>)],
       indexedDBReady = False, indexedDB = []\<rparr>))) ''A'' = None"
proof -
  let ?c = "cacheConfig True ''memory'' 100"
  let ?s = "\<lparr>memoryCache = [(''A'', \<lparr>key = ''A'', data = JStr ''payload'', timestamp = 0\<rparr>)],
       indexedDBReady = False, indexedDB = []\<rparr>"
  have en: "cache_enabled ?c" by (simp add: cacheConfig_def)
  have f1: "memoryFresh ?c 3599999 ''A'' ?s" by (simp add: memoryFresh_def cacheConfig_def)
  have f2: "\<not> memoryFresh ?c 3600000 ''A'' ?s \<and> \<not> durableFresh ?c 3600000 False ''A'' ?s"
    by (simp add: memoryFresh_def durableFresh_def cacheConfig_def)
  from Cache_get_ttl [of ?c 3599999 False False "''A''" ?s] en f1
  have a: "Cache_get ?c 3599999 False False ''A'' ?s = (JStr ''payload'', ?s)" by simp
  from Cache_get_ttl [of ?c 3600000 False False "''A''" ?s] en f2
  have b: "fst (Cache_get ?c 3600000 False False ''A'' ?s) = JNull
     \<and> map_of (memoryCache (snd (Cache_get ?c 3600000 False False ''A'' ?s))) ''A'' = None"
    by blast
  from a b show ?thesis by blast
qed

text \<open>
  C10: \<open>Cache.get(key)\<close> changes the memory tier at that key only: with the key taken out,
  the table after the call is the table before it, entry for entry and in the same order.
  It never evicts for \<open>maxSize\<close>: with \<open>maxSize = 1\<close>, after \<open>A\<close> and \<open>B\<close> were set (which
  leaves \<open>B\<close> in memory and both in the object store), \<open>get(A)\<close> copies \<open>A\<close> back and the
  memory tier holds two entries.
\<close>

theorem Cache_get_frame:
  "Map_delete k (memoryCache (snd (Cache_get cfg now getFails deleteFails k s)))
     = Map_delete k (memoryCache s)
   \<and> (let cfg1 = cacheConfig True ''indexedDB'' 1;
          s0 = \<lparr>memoryCache = [], indexedDBReady = True, indexedDB = []\<rparr>;
          s2 = Cache_set cfg1 2 False ''B'' (JNum 2) (Cache_set cfg1 1 False ''A'' (JNum 1) s0);
          s3 = snd (Cache_get cfg1 3 False False ''A'' s2)
      in map fst (memoryCache s2) = [''B'']
         \<and> map fst (memoryCache s3) = [''B'', ''A'']
         \<and> int (length (memoryCache s3)) > cache_maxSize cfg1)"
proof
  show "Map_delete k (memoryCache (snd (Cache_get cfg now getFails deleteFails k s)))
     = Map_delete k (memoryCache s)"
    by (simp add: Cache_get_def Cache_get_indexedDB_def Cache_delete_def delete_idem
        delete_update_same split: option.splits)
next
  show "let cfg1 = cacheConfig True ''indexedDB'' 1;
          s0 = \<lparr>memoryCache = [], indexedDBReady = True, indexedDB = []\<rparr>;
          s2 = Cache_set cfg1 2 False ''B'' (JNum 2) (Cache_set cfg1 1 False ''A'' (JNum 1) s0);
          s3 = snd (Cache_get cfg1 3 False False ''A'' s2)
      in map fst (memoryCache s2) = [''B'']
         \<and> map fst (memoryCache s3) = [''B'', ''A'']
         \<and> int (length (memoryCache s3)) > cache_maxSize cfg1"
    by (simp add: Let_def Cache_set_def Cache_get_def Cache_get_indexedDB_def Cache_delete_def
        cacheConfig_def)
qed


section \<open>Properties of the collector\<close>












lemma Map_set_existing:
  "k \<notin> fst ` set r1 \<Longrightarrow> Map_set k v (r1 @ (k, old) # r2) = r1 @ (k, v) # r2"
  by (induction r1) auto

text \<open>
  C9: registering a strategy under a name the registry already holds replaces the stored
  strategy where the name stands, so the order of the registry is the order of the first
  registrations. \<open>getEnabledStrategies\<close> keeps strategies of equal priority in that order:
  after \<open>a\<close>, \<open>b\<close> and then \<open>a'\<close> under the name of \<open>a\<close> were registered, all of one
  priority, \<open>a'\<close> comes before \<open>b\<close>.
\<close>

theorem register_keeps_position:
  "(reg = r1 @ (name st, old) # r2 \<and> name st \<notin> fst ` set r1 \<longrightarrow>
      register st reg = r1 @ (name st, st) # r2
      \<and> filter (\<lambda>q. priority q = p) (getEnabledStrategies current (register st reg))
          = filter (\<lambda>q. priority q = p)
              (filter (isEnabled current) (map snd r1 @ st # map snd r2)))
   \<and> (name a' = name a \<and> name b \<noteq> name a \<and> isEnabled current a' \<and> isEnabled current b
        \<and> priority a' = priority b \<longrightarrow>
      getEnabledStrategies current (registerAll [a, b, a'] []) = [a', b])"
proof (intro conjI impI)
  assume h: "reg = r1 @ (name st, old) # r2 \<and> name st \<notin> fst ` set r1"
  then show r: "register st reg = r1 @ (name st, st) # r2"
    by (simp add: register_def Map_set_existing)
  show "filter (\<lambda>q. priority q = p) (getEnabledStrategies current (register st reg))
          = filter (\<lambda>q. priority q = p)
              (filter (isEnabled current) (map snd r1 @ st # map snd r2))"
    unfolding getEnabledStrategies_def r by (simp add: sort_key_stable)
next
  assume "name a' = name a \<and> name b \<noteq> name a \<and> isEnabled current a' \<and> isEnabled current b
        \<and> priority a' = priority b"
  then show "getEnabledStrategies current (registerAll [a, b, a'] []) = [a', b]"
    by (auto simp add: getEnabledStrategies_def registerAll_def register_def)
qed

text \<open>
  C1 (the code departs from the claim): \<open>collect()\<close> hands \<open>this.timeout\<close> to \<open>withTimeout\<close>
  as \<open>timeoutType\<close>, the name of a configuration entry, and not as \<open>customTimeout\<close>. With
  the default configuration there is no entry \<open>timeouts.50\<close>, so the deadline is the
  default of 5000 ms: a strategy with timeout 50 that takes 500 ms delivers its value,
  in \<open>collect()\<close> and in the fingerprint object, and null only comes after 5000 ms.
  The same holds of \<open>MediaDevicesStrategy\<close>, whose timeout is 3000. Passed as
  \<open>customTimeout\<close>, the timeout would be the deadline.
\<close>

theorem collect_timeout_ignored:
  "strategy_collect defaults (probe ''SlowStrategy'' (JNum 50) (Settles 500 (Fulfilled (JStr ''late''))))
     = Some (Fulfilled (JStr ''late''))
   \<and> map_option aggregateResults
       (executeStrategies defaults [0]
          (getEnabledStrategies defaults
             (registerAll [probe ''SlowStrategy'' (JNum 50) (Settles 500 (Fulfilled (JStr ''late'')))] [])))
       = Some [(''slow'', JStr ''late'')]
   \<and> strategy_collect defaults (probe ''SlowStrategy'' (JNum 50) (Settles 5001 (Fulfilled (JStr ''late''))))
     = Some (Fulfilled JNull)
   \<and> strategy_collect defaults
       ((probe ''MediaDevicesStrategy'' (Config_get defaults ''timeouts.mediaDevices'' (JNum 3000))
           (Settles 4000 (Fulfilled (JStr ''devices''))))\<lparr>priority := 35, requiresAsync := True\<rparr>)
     = Some (Fulfilled (JStr ''devices''))
   \<and> withTimeout defaults (Settles 500 (Fulfilled (JStr ''late''))) (JNum 50) JNull JNull
     = Settles 500 (Fulfilled (JStr ''late''))
   \<and> withTimeout defaults (Settles 500 (Fulfilled (JStr ''late''))) (JNum 50) JNull (JNum 50)
     = Settles 50 (Fulfilled JNull)"
  by (simp add: strategy_collect_def probe_def isEnabled_def getFeatureKey_def
      dropStrategySuffix_def specialCases_def toLowerChar_def Config_get_def defaults_def
      withTimeout_def showInt_def showNat.simps digitChar_def executeStrategies_def
      allSettled_def strategyResults_def aggregateResults_def fingerprintKey_def keyMapping_def
      toLowerCase_def getEnabledStrategies_def registerAll_def register_def)




















section \<open>Instances\<close>

lemmas example_defs = strategy_collect_def probe_def isEnabled_def getFeatureKey_def
      dropStrategySuffix_def specialCases_def toLowerChar_def Config_get_def defaults_def
      executeStrategies_def
      allSettled_def strategyResults_def aggregateResults_def fingerprintKey_def keyMapping_def
      toLowerCase_def getEnabledStrategies_def registerAll_def register_def

theorem register_keeps_position_witness:
  "register (probe ''A'' (JNum 7) Throws)
      [(''A'', probe ''A'' JNull Throws), (''B'', probe ''B'' JNull Throws)]
     = [(''A'', probe ''A'' (JNum 7) Throws), (''B'', probe ''B'' JNull Throws)]
   \<and> getEnabledStrategies defaults
        (registerAll [probe ''A'' JNull Throws, probe ''B'' JNull Throws,
                      probe ''A'' (JNum 7) Throws] [])
     = [probe ''A'' (JNum 7) Throws, probe ''B'' JNull Throws]"
proof -
  have n: "name (probe ''A'' (JNum 7) Throws) = ''A''" by (simp add: probe_def)
  have h1: "[(''A'', probe ''A'' JNull Throws), (''B'', probe ''B'' JNull Throws)]
      = [] @ (name (probe ''A'' (JNum 7) Throws), probe ''A'' JNull Throws)
           # [(''B'', probe ''B'' JNull Throws)]
      \<and> name (probe ''A'' (JNum 7) Throws) \<notin> fst ` set []"
    by (simp add: n)
  have h2: "name (probe ''A'' (JNum 7) Throws) = name (probe ''A'' JNull Throws)
      \<and> name (probe ''B'' JNull Throws) \<noteq> name (probe ''A'' JNull Throws)
      \<and> isEnabled defaults (probe ''A'' (JNum 7) Throws)
      \<and> isEnabled defaults (probe ''B'' JNull Throws)
      \<and> priority (probe ''A'' (JNum 7) Throws) = priority (probe ''B'' JNull Throws)"
    by (simp add: example_defs)
  from register_keeps_position [of
      "[(''A'', probe ''A'' JNull Throws), (''B'', probe ''B'' JNull Throws)]" "[]"
      "probe ''A'' (JNum 7) Throws" "probe ''A'' JNull Throws" "[(''B'', probe ''B'' JNull Throws)]"
      100 defaults "probe ''A'' (JNum 7) Throws" "probe ''A'' JNull Throws" "probe ''B'' JNull Throws"]
    h1 h2
  show ?thesis by (simp add: n)
qed






section \<open>Cache hits of the collector\<close>









end
